theory Spec2Isabelle
  imports Main "HOL-Library.Char_ord" "HOL-Library.List_Lexorder" "HOL-Library.Multiset"
begin

section \<open>Python values and exceptions\<close>

text \<open>
  Exceptions of the Python code are values. \<open>HTTPError\<close> is what \<open>raise_for_status\<close>
  raises, \<open>RequestTimeout\<close> is \<open>requests.exceptions.Timeout\<close>, \<open>BindingError\<close> is sqlite3 refusing a parameter of an unsupported type, and
  \<open>IntegrityError\<close> names the column of a violated \<open>NOT NULL\<close> constraint.
\<close>

datatype pyerror =
    KeyError string
  | AttributeError
  | TypeError
  | ValueError
  | OverflowError
  | IndexError
  | HTTPError
  | RequestTimeout
  | BindingError
  | IntegrityError string

section \<open>Timestamps: \<open>datetime\<close>, \<open>isoformat\<close>, \<open>fromisoformat\<close>\<close>

text \<open>
  A \<open>datetime\<close> with a fixed-offset \<open>tzinfo\<close>. \<open>tzoffset\<close> is the UTC offset in
  microseconds (\<open>timedelta\<close> resolution); \<open>None\<close> is a naive timestamp.
\<close>

record datetime =
  year :: nat
  month :: nat
  day :: nat
  hour :: nat
  minute :: nat
  second :: nat
  microsecond :: nat
  tzoffset :: "int option"

definition is_leap :: "nat \<Rightarrow> bool" where
  "is_leap y = (y mod 4 = 0 \<and> (y mod 100 \<noteq> 0 \<or> y mod 400 = 0))"

definition days_in_month :: "nat \<Rightarrow> nat \<Rightarrow> nat" where
  "days_in_month y m =
     (if m = 2 then (if is_leap y then 29 else 28)
      else if m = 4 \<or> m = 6 \<or> m = 9 \<or> m = 11 then 30 else 31)"

definition day_us :: int where
  "day_us = 86400000000"

text \<open>The checks of the \<open>datetime\<close> and \<open>timezone\<close> constructors.\<close>

definition valid_datetime :: "datetime \<Rightarrow> bool" where
  "valid_datetime dt =
     (1 \<le> year dt \<and> year dt \<le> 9999 \<and> 1 \<le> month dt \<and> month dt \<le> 12 \<and>
      1 \<le> day dt \<and> day dt \<le> days_in_month (year dt) (month dt) \<and>
      hour dt < 24 \<and> minute dt < 60 \<and> second dt < 60 \<and> microsecond dt < 1000000 \<and>
      (case tzoffset dt of None \<Rightarrow> True | Some off \<Rightarrow> - day_us < off \<and> off < day_us))"

definition digits :: string where
  "digits = ''0123456789''"

definition digit_char :: "nat \<Rightarrow> char" where
  "digit_char n = digits ! n"

definition is_digit :: "char \<Rightarrow> bool" where
  "is_digit c = (c \<in> set digits)"

definition digit_val :: "char \<Rightarrow> nat" where
  "digit_val c = length (takeWhile (\<lambda>d. d \<noteq> c) digits)"

definition pad2 :: "nat \<Rightarrow> string" where
  "pad2 n = [digit_char (n div 10 mod 10), digit_char (n mod 10)]"

definition pad4 :: "nat \<Rightarrow> string" where
  "pad4 n = [digit_char (n div 1000 mod 10), digit_char (n div 100 mod 10),
             digit_char (n div 10 mod 10), digit_char (n mod 10)]"

definition pad6 :: "nat \<Rightarrow> string" where
  "pad6 n = [digit_char (n div 100000 mod 10), digit_char (n div 10000 mod 10),
             digit_char (n div 1000 mod 10), digit_char (n div 100 mod 10),
             digit_char (n div 10 mod 10), digit_char (n mod 10)]"

text \<open>\<open>_format_offset\<close>: sign, hours and minutes; seconds and microseconds only when non-zero.\<close>

definition format_offset :: "int option \<Rightarrow> string" where
  "format_offset tz =
     (case tz of
        None \<Rightarrow> []
      | Some off \<Rightarrow>
          (let a = nat \<bar>off\<bar>;
               hh = a div 3600000000;
               mm = a mod 3600000000 div 60000000;
               ss = a mod 60000000 div 1000000;
               us = a mod 1000000
           in (if off < 0 then CHR ''-'' else CHR ''+'') # pad2 hh @ CHR '':'' # pad2 mm @
              (if ss \<noteq> 0 \<or> us \<noteq> 0
               then CHR '':'' # pad2 ss @ (if us \<noteq> 0 then CHR ''.'' # pad6 us else [])
               else [])))"

definition date_isoformat :: "nat \<Rightarrow> nat \<Rightarrow> nat \<Rightarrow> string" where
  "date_isoformat y m d = pad4 y @ CHR ''-'' # pad2 m @ CHR ''-'' # pad2 d"

definition time_isoformat :: "nat \<Rightarrow> nat \<Rightarrow> nat \<Rightarrow> nat \<Rightarrow> string" where
  "time_isoformat h m s us =
     pad2 h @ CHR '':'' # pad2 m @ CHR '':'' # pad2 s @
     (if us \<noteq> 0 then CHR ''.'' # pad6 us else [])"

definition isoformat :: "datetime \<Rightarrow> string" where
  "isoformat dt =
     date_isoformat (year dt) (month dt) (day dt) @ CHR ''T'' #
     time_isoformat (hour dt) (minute dt) (second dt) (microsecond dt) @
     format_offset (tzoffset dt)"

text \<open>
  \<open>fromisoformat\<close>, with the grammar of Python 3.7 to 3.10 (the inverse of \<open>isoformat\<close>; the
  client replaces \<open>Z\<close> by \<open>+00:00\<close> for it): \<open>YYYY-MM-DD\<close>, one separator character,
  \<open>HH[:MM[:SS[.fff[fff]]]]\<close> and an optional offset \<open>+HH:MM[:SS[.ffffff]]\<close>.
\<close>

definition int_of_digits :: "string \<Rightarrow> nat option" where
  "int_of_digits s =
     (if s \<noteq> [] \<and> list_all is_digit s
      then Some (foldl (\<lambda>a c. 10 * a + digit_val c) 0 s) else None)"

definition parse_isoformat_date :: "string \<Rightarrow> (nat \<times> nat \<times> nat) option" where
  "parse_isoformat_date dstr =
     (if length dstr \<noteq> 10 \<or> dstr ! 4 \<noteq> CHR ''-'' \<or> dstr ! 7 \<noteq> CHR ''-'' then None
      else case (int_of_digits (take 4 dstr), int_of_digits (take 2 (drop 5 dstr)),
                 int_of_digits (drop 8 dstr)) of
             (Some y, Some m, Some d) \<Rightarrow> Some (y, m, d)
           | _ \<Rightarrow> None)"

definition parse_fraction :: "string \<Rightarrow> nat option" where
  "parse_fraction frac =
     (if length frac = 3 then map_option (\<lambda>n. n * 1000) (int_of_digits frac)
      else if length frac = 6 then int_of_digits frac
      else None)"

definition parse_hh_mm_ss_ff :: "string \<Rightarrow> (nat \<times> nat \<times> nat \<times> nat) option" where
  "parse_hh_mm_ss_ff tstr =
     (case int_of_digits (take 2 tstr) of
        None \<Rightarrow> None
      | Some hh \<Rightarrow>
          if length tstr < 2 then None
          else if length tstr = 2 then Some (hh, 0, 0, 0)
          else if tstr ! 2 \<noteq> CHR '':'' then None
          else if length tstr < 5 then None
          else (case int_of_digits (take 2 (drop 3 tstr)) of
                  None \<Rightarrow> None
                | Some mm \<Rightarrow>
                    if length tstr = 5 then Some (hh, mm, 0, 0)
                    else if tstr ! 5 \<noteq> CHR '':'' then None
                    else if length tstr < 8 then None
                    else (case int_of_digits (take 2 (drop 6 tstr)) of
                            None \<Rightarrow> None
                          | Some ss \<Rightarrow>
                              if length tstr = 8 then Some (hh, mm, ss, 0)
                              else if tstr ! 8 \<noteq> CHR ''.'' then None
                              else map_option (\<lambda>us. (hh, mm, ss, us))
                                     (parse_fraction (drop 9 tstr)))))"

fun str_find :: "char \<Rightarrow> string \<Rightarrow> nat option" where
  "str_find c [] = None"
| "str_find c (x # xs) = (if x = c then Some 0 else map_option Suc (str_find c xs))"

text \<open>\<open>tz_pos = tstr.find('-') + 1 or tstr.find('+') + 1\<close>.\<close>

definition tz_pos :: "string \<Rightarrow> nat" where
  "tz_pos tstr =
     (case str_find CHR ''-'' tstr of
        Some i \<Rightarrow> i + 1
      | None \<Rightarrow> (case str_find CHR ''+'' tstr of Some i \<Rightarrow> i + 1 | None \<Rightarrow> 0))"

definition parse_tz :: "string \<Rightarrow> nat \<Rightarrow> int option option" where
  "parse_tz tstr p =
     (if p = 0 then Some None
      else let tzstr = drop p tstr in
        if length tzstr \<noteq> 5 \<and> length tzstr \<noteq> 8 \<and> length tzstr \<noteq> 15 then None
        else (case parse_hh_mm_ss_ff tzstr of
                None \<Rightarrow> None
              | Some (hh, mm, ss, us) \<Rightarrow>
                  (let td = int (((hh * 60 + mm) * 60 + ss) * 1000000 + us);
                       off = (if tstr ! (p - 1) = CHR ''-'' then - td else td)
                   in if - day_us < off \<and> off < day_us then Some (Some off) else None)))"

definition parse_isoformat_time :: "string \<Rightarrow> ((nat \<times> nat \<times> nat \<times> nat) \<times> int option) option" where
  "parse_isoformat_time tstr =
     (if length tstr < 2 then None
      else let p = tz_pos tstr;
               timestr = (if p > 0 then take (p - 1) tstr else tstr)
           in case parse_hh_mm_ss_ff timestr of
                None \<Rightarrow> None
              | Some comps \<Rightarrow> map_option (\<lambda>tz. (comps, tz)) (parse_tz tstr p))"

definition mk_datetime :: "nat \<Rightarrow> nat \<Rightarrow> nat \<Rightarrow> nat \<Rightarrow> nat \<Rightarrow> nat \<Rightarrow> nat \<Rightarrow> int option \<Rightarrow> datetime" where
  "mk_datetime y mo d h mi s us tz =
     \<lparr>year = y, month = mo, day = d, hour = h, minute = mi, second = s,
      microsecond = us, tzoffset = tz\<rparr>"

definition fromisoformat :: "string \<Rightarrow> pyerror + datetime" where
  "fromisoformat s =
     (case parse_isoformat_date (take 10 s) of
        None \<Rightarrow> Inl ValueError
      | Some (y, mo, d) \<Rightarrow>
          (case (if drop 11 s = [] then Some ((0, 0, 0, 0), None)
                 else parse_isoformat_time (drop 11 s)) of
             None \<Rightarrow> Inl ValueError
           | Some ((h, mi, sec, us), tz) \<Rightarrow>
               (let dt = mk_datetime y mo d h mi sec us tz
                in if valid_datetime dt then Inr dt else Inl ValueError)))"

text \<open>The part of \<open>_format_offset\<close>'s output after the sign.\<close>

definition offset_body :: "nat \<Rightarrow> nat \<Rightarrow> nat \<Rightarrow> nat \<Rightarrow> string" where
  "offset_body hh mm ss us =
     pad2 hh @ CHR '':'' # pad2 mm @
       (if ss \<noteq> 0 \<or> us \<noteq> 0
        then CHR '':'' # pad2 ss @ (if us \<noteq> 0 then CHR ''.'' # pad6 us else [])
        else [])"

section \<open>Calendar arithmetic and \<open>astimezone\<close>\<close>

definition days_before_year :: "nat \<Rightarrow> nat" where
  "days_before_year y = (y - 1) * 365 + (y - 1) div 4 - (y - 1) div 100 + (y - 1) div 400"

definition days_before_month_tab :: "nat \<Rightarrow> nat" where
  "days_before_month_tab m = [0, 0, 31, 59, 90, 120, 151, 181, 212, 243, 273, 304, 334] ! m"

definition days_before_month :: "nat \<Rightarrow> nat \<Rightarrow> nat" where
  "days_before_month y m = days_before_month_tab m + (if m > 2 \<and> is_leap y then 1 else 0)"

definition ymd2ord :: "nat \<Rightarrow> nat \<Rightarrow> nat \<Rightarrow> nat" where
  "ymd2ord y m d = days_before_year y + days_before_month y m + d"

text \<open>\<open>_ord2ymd\<close>: the proleptic Gregorian date of an ordinal, 0001-01-01 being day 1.\<close>

definition ord2ymd :: "nat \<Rightarrow> nat \<times> nat \<times> nat" where
  "ord2ymd n0 =
     (let n = n0 - 1;
          n400 = n div 146097; n = n mod 146097;
          n100 = n div 36524; n = n mod 36524;
          n4 = n div 1461; n = n mod 1461;
          n1 = n div 365; n = n mod 365;
          y = n400 * 400 + 1 + n100 * 100 + n4 * 4 + n1
      in if n1 = 4 \<or> n100 = 4 then (y - 1, 12, 31)
         else
           let leapyear = (n1 = 3 \<and> (n4 \<noteq> 24 \<or> n100 = 3));
               m = (n + 50) div 32;
               preceding = days_before_month_tab m + (if m > 2 \<and> leapyear then 1 else 0)
           in if preceding > n
              then let m' = m - 1;
                       preceding' = preceding -
                         ((if m' = 2 then 28
                           else if m' = 4 \<or> m' = 6 \<or> m' = 9 \<or> m' = 11 then 30 else 31) +
                          (if m' = 2 \<and> leapyear then 1 else 0))
                   in (y, m', n - preceding' + 1)
              else (y, m, n - preceding + 1))"

text \<open>Wall-clock microseconds since the start of ordinal day 0.\<close>

definition to_us :: "datetime \<Rightarrow> int" where
  "to_us dt =
     (((int (ymd2ord (year dt) (month dt) (day dt)) * 24 + int (hour dt)) * 60 +
        int (minute dt)) * 60 + int (second dt)) * 1000000 + int (microsecond dt)"

definition max_ordinal :: int where
  "max_ordinal = 3652059"

text \<open>
  \<open>datetime + timedelta\<close>: the result is rebuilt from its day count, and
  \<open>OverflowError\<close> is raised outside the years 1 to 9999.
\<close>

definition of_us :: "int \<Rightarrow> int option \<Rightarrow> pyerror + datetime" where
  "of_us t tz =
     (let days = t div day_us; r = nat (t mod day_us)
      in if days < 1 \<or> days > max_ordinal then Inl OverflowError
         else case ord2ymd (nat days) of
                (y, m, d) \<Rightarrow>
                  Inr (mk_datetime y m d (r div 3600000000) (r mod 3600000000 div 60000000)
                         (r mod 60000000 div 1000000) (r mod 1000000) tz))"

text \<open>
  \<open>dt.astimezone(tz)\<close> for a fixed-offset target \<open>tz\<close> (microseconds):
  \<open>utc = (self - myoffset).replace(tzinfo=tz); return tz.fromutc(utc)\<close>. For a naive
  \<open>self\<close> Python takes \<open>myoffset\<close> from the system's local time zone; \<open>local\<close> is that
  zone's UTC offset.
\<close>

definition astimezone :: "int \<Rightarrow> datetime \<Rightarrow> int \<Rightarrow> pyerror + datetime" where
  "astimezone local dt tz =
     (let myoffset = (case tzoffset dt of None \<Rightarrow> local | Some off \<Rightarrow> off)
      in case of_us (to_us dt - myoffset) (Some tz) of
           Inl e \<Rightarrow> Inl e
         | Inr utc \<Rightarrow> of_us (to_us utc + tz) (Some tz))"

definition utc_minus_7 :: int where
  "utc_minus_7 = - 25200000000"

section \<open>Python values\<close>

text \<open>
  Dynamically typed values: what a JSON payload, a dictionary entry or an attribute can hold.
  JSON numbers are integers here.
\<close>

datatype pyval =
    PNone
  | PBool bool
  | PInt int
  | PStr string
  | PList "pyval list"
  | PDict "(string \<times> pyval) list"

fun truthy :: "pyval \<Rightarrow> bool" where
  "truthy PNone = False"
| "truthy (PBool b) = b"
| "truthy (PInt n) = (n \<noteq> 0)"
| "truthy (PStr s) = (s \<noteq> [])"
| "truthy (PList xs) = (xs \<noteq> [])"
| "truthy (PDict kvs) = (kvs \<noteq> [])"

definition bindE :: "pyerror + 'a \<Rightarrow> ('a \<Rightarrow> pyerror + 'b) \<Rightarrow> pyerror + 'b" where
  "bindE m f = (case m of Inl e \<Rightarrow> Inl e | Inr x \<Rightarrow> f x)"

section \<open>The Incident record (incident\_v2.py)\<close>

text \<open>
  Python does not enforce the annotations of the dataclass: the text attributes hold whatever
  the payload or the caller supplied (the test suite stores an incident whose \<open>id\<close> is
  \<open>None\<close>), so they are \<open>pyval\<close>s. The timestamps are \<open>datetime\<close> objects.
\<close>

record incident =
  id' :: pyval
  title :: pyval
  status :: pyval
  service_id :: pyval
  service_name :: pyval
  created_at :: datetime
  resolved_at :: "datetime option"
  acknowledged_at :: "datetime option"
  is_escalated :: bool
  escalation_policy_id :: pyval
  escalation_policy_name :: pyval
  urgency :: pyval
  priority :: pyval
  description :: pyval
  resolved_by_ccoe :: bool
  caused_by_infra :: pyval

definition opt_isoformat :: "datetime option \<Rightarrow> pyval" where
  "opt_isoformat d = (case d of None \<Rightarrow> PNone | Some dt \<Rightarrow> PStr (isoformat dt))"

definition to_dict :: "incident \<Rightarrow> (string \<rightharpoonup> pyval)" where
  "to_dict x = map_of
     [(''id'', id' x),
      (''title'', title x),
      (''status'', status x),
      (''service_id'', service_id x),
      (''service_name'', service_name x),
      (''created_at'', PStr (isoformat (created_at x))),
      (''resolved_at'', opt_isoformat (resolved_at x)),
      (''acknowledged_at'', opt_isoformat (acknowledged_at x)),
      (''is_escalated'', PBool (is_escalated x)),
      (''escalation_policy_id'', escalation_policy_id x),
      (''escalation_policy_name'', escalation_policy_name x),
      (''urgency'', urgency x),
      (''priority'', priority x),
      (''description'', description x),
      (''resolved_by_ccoe'', PBool (resolved_by_ccoe x)),
      (''caused_by_infra'', caused_by_infra x)]"

text \<open>\<open>data[key]\<close> on a dictionary.\<close>

definition getitem :: "(string \<rightharpoonup> pyval) \<Rightarrow> string \<Rightarrow> pyerror + pyval" where
  "getitem data k = (case data k of None \<Rightarrow> Inl (KeyError k) | Some v \<Rightarrow> Inr v)"

text \<open>\<open>data.get(key, default)\<close> on a dictionary.\<close>

definition get_default :: "(string \<rightharpoonup> pyval) \<Rightarrow> string \<Rightarrow> pyval \<Rightarrow> pyval" where
  "get_default data k d = (case data k of None \<Rightarrow> d | Some v \<Rightarrow> v)"

definition py_fromisoformat :: "pyval \<Rightarrow> pyerror + datetime" where
  "py_fromisoformat v = (case v of PStr s \<Rightarrow> fromisoformat s | _ \<Rightarrow> Inl TypeError)"

text \<open>\<open>datetime.fromisoformat(v) if v else None\<close>.\<close>

definition opt_fromisoformat :: "pyval \<Rightarrow> pyerror + datetime option" where
  "opt_fromisoformat v =
     (if truthy v then bindE (py_fromisoformat v) (\<lambda>dt. Inr (Some dt)) else Inr None)"

definition from_dict :: "(string \<rightharpoonup> pyval) \<Rightarrow> pyerror + incident" where
  "from_dict data =
     bindE (bindE (getitem data ''created_at'') py_fromisoformat) (\<lambda>created.
     bindE (bindE (getitem data ''resolved_at'') opt_fromisoformat) (\<lambda>resolved.
     bindE (bindE (getitem data ''acknowledged_at'') opt_fromisoformat) (\<lambda>acked.
     bindE (getitem data ''id'') (\<lambda>v_id.
     bindE (getitem data ''title'') (\<lambda>v_title.
     bindE (getitem data ''status'') (\<lambda>v_status.
     bindE (getitem data ''service_id'') (\<lambda>v_service_id.
     bindE (getitem data ''service_name'') (\<lambda>v_service_name.
     bindE (getitem data ''is_escalated'') (\<lambda>v_escalated.
     bindE (getitem data ''escalation_policy_id'') (\<lambda>v_policy_id.
     bindE (getitem data ''escalation_policy_name'') (\<lambda>v_policy_name.
     bindE (getitem data ''urgency'') (\<lambda>v_urgency.
     bindE (getitem data ''priority'') (\<lambda>v_priority.
     bindE (getitem data ''description'') (\<lambda>v_description.
       Inr \<lparr>id' = v_id, title = v_title, status = v_status,
            service_id = v_service_id, service_name = v_service_name,
            created_at = created, resolved_at = resolved, acknowledged_at = acked,
            is_escalated = truthy v_escalated,
            escalation_policy_id = v_policy_id, escalation_policy_name = v_policy_name,
            urgency = v_urgency, priority = v_priority, description = v_description,
            resolved_by_ccoe = truthy (get_default data ''resolved_by_ccoe'' (PBool False)),
            caused_by_infra = get_default data ''caused_by_infra'' PNone\<rparr>))))))))))))))"

text \<open>
  \<open>get_date_str_utc_minus_7\<close>; \<open>local\<close> is the UTC offset of the system's local time zone,
  which \<open>astimezone\<close> consults when \<open>created_at\<close> is naive.
\<close>

definition get_date_str_utc_minus_7 :: "int \<Rightarrow> incident \<Rightarrow> pyerror + string" where
  "get_date_str_utc_minus_7 local x =
     bindE (astimezone local (created_at x) utc_minus_7)
       (\<lambda>local_time. Inr (date_isoformat (year local_time) (month local_time) (day local_time)))"

text \<open>The timestamps of an incident satisfy the \<open>datetime\<close> constructor's checks.\<close>

definition valid_incident :: "incident \<Rightarrow> bool" where
  "valid_incident x =
     (valid_datetime (created_at x) \<and>
      (case resolved_at x of None \<Rightarrow> True | Some dt \<Rightarrow> valid_datetime dt) \<and>
      (case acknowledged_at x of None \<Rightarrow> True | Some dt \<Rightarrow> valid_datetime dt))"

text \<open>A dictionary whose two boolean entries are stored as the integers 0 and 1.\<close>

definition bools_as_ints :: "(string \<rightharpoonup> pyval) \<Rightarrow> (string \<rightharpoonup> pyval)" where
  "bools_as_ints data = (\<lambda>k.
     if k = ''is_escalated'' \<or> k = ''resolved_by_ccoe''
     then (case data k of Some (PBool b) \<Rightarrow> Some (PInt (if b then 1 else 0)) | r \<Rightarrow> r)
     else data k)"

section \<open>The incidents table (database\_v2.py)\<close>

text \<open>
  A row of the table \<open>incidents\<close>, as SQLite holds it after applying the column affinities:
  a \<open>TEXT\<close> column holds text or \<open>NULL\<close>; the \<open>BOOLEAN\<close> columns hold the integers that
  Python's \<open>bool\<close> is bound as; the \<open>TIMESTAMP\<close> columns hold the ISO text that
  \<open>to_dict\<close> writes (it is not a numeric literal, so it stays text). \<open>id TEXT PRIMARY KEY\<close>
  is declared without \<open>NOT NULL\<close>, and SQLite then admits \<open>NULL\<close> in the key column.
\<close>

record db_row =
  r_id :: "string option"
  r_title :: string
  r_status :: string
  r_service_id :: string
  r_service_name :: string
  r_created_at :: string
  r_resolved_at :: "string option"
  r_acknowledged_at :: "string option"
  r_is_escalated :: int
  r_escalation_policy_id :: "string option"
  r_escalation_policy_name :: "string option"
  r_urgency :: "string option"
  r_priority :: "string option"
  r_description :: "string option"
  r_resolved_by_ccoe :: int
  r_caused_by_infra :: "string option"
  r_updated_at :: string

type_synonym table = "db_row list"

function show_nat :: "nat \<Rightarrow> string" where
  "show_nat n = (if n < 10 then [digit_char n] else show_nat (n div 10) @ [digit_char (n mod 10)])"
  by pat_completeness auto
termination
  by (relation "measure (\<lambda>n. n)") auto

definition show_int :: "int \<Rightarrow> string" where
  "show_int i = (if i < 0 then CHR ''-'' # show_nat (nat (- i)) else show_nat (nat i))"

text \<open>
  Binding a Python value to a parameter that goes into a \<open>TEXT\<close> column: \<open>None\<close> is
  \<open>NULL\<close>, a string is itself, an integer (64-bit at most) is converted to its decimal text
  by the column affinity, and a list or dictionary is refused.
\<close>

definition bind_text :: "pyval \<Rightarrow> pyerror + string option" where
  "bind_text v =
     (case v of
        PNone \<Rightarrow> Inr None
      | PStr s \<Rightarrow> Inr (Some s)
      | PBool b \<Rightarrow> Inr (Some (if b then ''1'' else ''0''))
      | PInt n \<Rightarrow>
          if - 9223372036854775808 \<le> n \<and> n \<le> 9223372036854775807
          then Inr (Some (show_int n)) else Inl OverflowError
      | PList xs \<Rightarrow> Inl BindingError
      | PDict kvs \<Rightarrow> Inl BindingError)"

text \<open>A \<open>NOT NULL\<close> column without a default: \<open>INSERT OR REPLACE\<close> aborts on \<open>NULL\<close>.\<close>

definition not_null :: "string \<Rightarrow> string option \<Rightarrow> pyerror + string" where
  "not_null col v = (case v of None \<Rightarrow> Inl (IntegrityError col) | Some s \<Rightarrow> Inr s)"

definition opt_iso_text :: "datetime option \<Rightarrow> string option" where
  "opt_iso_text d = map_option isoformat d"

text \<open>
  The row that the \<open>INSERT OR REPLACE\<close> statement of \<open>store_incident\<close> and
  \<open>store_incidents_batch\<close> writes for \<open>incident.to_dict()\<close>: the seventeen parameters are
  bound in order, then the \<open>NOT NULL\<close> constraints are checked. \<open>now\<close> is
  \<open>datetime.now(self.utc_minus_7).isoformat()\<close>.
\<close>

definition upsert_row :: "string \<Rightarrow> incident \<Rightarrow> pyerror + db_row" where
  "upsert_row now x =
     bindE (bind_text (id' x)) (\<lambda>b_id.
     bindE (bind_text (title x)) (\<lambda>b_title.
     bindE (bind_text (status x)) (\<lambda>b_status.
     bindE (bind_text (service_id x)) (\<lambda>b_service_id.
     bindE (bind_text (service_name x)) (\<lambda>b_service_name.
     bindE (bind_text (escalation_policy_id x)) (\<lambda>b_policy_id.
     bindE (bind_text (escalation_policy_name x)) (\<lambda>b_policy_name.
     bindE (bind_text (urgency x)) (\<lambda>b_urgency.
     bindE (bind_text (priority x)) (\<lambda>b_priority.
     bindE (bind_text (description x)) (\<lambda>b_description.
     bindE (bind_text (caused_by_infra x)) (\<lambda>b_caused.
     bindE (not_null ''title'' b_title) (\<lambda>n_title.
     bindE (not_null ''status'' b_status) (\<lambda>n_status.
     bindE (not_null ''service_id'' b_service_id) (\<lambda>n_service_id.
     bindE (not_null ''service_name'' b_service_name) (\<lambda>n_service_name.
       Inr \<lparr>r_id = b_id, r_title = n_title, r_status = n_status,
            r_service_id = n_service_id, r_service_name = n_service_name,
            r_created_at = isoformat (created_at x),
            r_resolved_at = opt_iso_text (resolved_at x),
            r_acknowledged_at = opt_iso_text (acknowledged_at x),
            r_is_escalated = (if is_escalated x then 1 else 0),
            r_escalation_policy_id = b_policy_id, r_escalation_policy_name = b_policy_name,
            r_urgency = b_urgency, r_priority = b_priority, r_description = b_description,
            r_resolved_by_ccoe = (if resolved_by_ccoe x then 1 else 0),
            r_caused_by_infra = b_caused,
            r_updated_at = now\<rparr>)))))))))))))))"

text \<open>
  \<open>INSERT OR REPLACE\<close>: a row whose key equals the new key is deleted, and the new row is
  added. A \<open>NULL\<close> key equals no key, so such a row is always added.
\<close>

definition insert_or_replace :: "table \<Rightarrow> db_row \<Rightarrow> table" where
  "insert_or_replace t r =
     (case r_id r of
        None \<Rightarrow> t @ [r]
      | Some i \<Rightarrow> [q \<leftarrow> t. r_id q \<noteq> Some i] @ [r])"


text \<open>
  The loop of \<open>store_incidents_batch\<close>: every exception of an iteration is caught and the
  loop goes on. \<open>clock k\<close> is the current time read in iteration \<open>k\<close>.
\<close>

fun store_loop :: "(nat \<Rightarrow> string) \<Rightarrow> nat \<Rightarrow> table \<Rightarrow> nat \<Rightarrow> incident list \<Rightarrow> nat \<times> table" where
  "store_loop clock k t stored_count [] = (stored_count, t)"
| "store_loop clock k t stored_count (x # xs) =
     (case upsert_row (clock k) x of
        Inl e \<Rightarrow> store_loop clock (k + 1) t stored_count xs
      | Inr r \<Rightarrow> store_loop clock (k + 1) (insert_or_replace t r) (stored_count + 1) xs)"

definition store_incidents_batch :: "(nat \<Rightarrow> string) \<Rightarrow> table \<Rightarrow> incident list \<Rightarrow> nat \<times> table" where
  "store_incidents_batch clock t incidents =
     (if incidents = [] then (0, t) else store_loop clock 0 t 0 incidents)"

definition opt_text :: "string option \<Rightarrow> pyval" where
  "opt_text v = (case v of None \<Rightarrow> PNone | Some s \<Rightarrow> PStr s)"

text \<open>\<open>dict(row)\<close> for a \<open>sqlite3.Row\<close>.\<close>

definition row_dict :: "db_row \<Rightarrow> (string \<rightharpoonup> pyval)" where
  "row_dict r = map_of
     [(''id'', opt_text (r_id r)),
      (''title'', PStr (r_title r)),
      (''status'', PStr (r_status r)),
      (''service_id'', PStr (r_service_id r)),
      (''service_name'', PStr (r_service_name r)),
      (''created_at'', PStr (r_created_at r)),
      (''resolved_at'', opt_text (r_resolved_at r)),
      (''acknowledged_at'', opt_text (r_acknowledged_at r)),
      (''is_escalated'', PInt (r_is_escalated r)),
      (''escalation_policy_id'', opt_text (r_escalation_policy_id r)),
      (''escalation_policy_name'', opt_text (r_escalation_policy_name r)),
      (''urgency'', opt_text (r_urgency r)),
      (''priority'', opt_text (r_priority r)),
      (''description'', opt_text (r_description r)),
      (''resolved_by_ccoe'', PInt (r_resolved_by_ccoe r)),
      (''caused_by_infra'', opt_text (r_caused_by_infra r)),
      (''updated_at'', PStr (r_updated_at r))]"

text \<open>The loop \<open>for row in cursor.fetchall(): incidents.append(Incident.from_dict(dict(row)))\<close>.\<close>

fun rows_to_incidents :: "db_row list \<Rightarrow> pyerror + incident list" where
  "rows_to_incidents [] = Inr []"
| "rows_to_incidents (r # rs) =
     bindE (from_dict (row_dict r)) (\<lambda>x. bindE (rows_to_incidents rs) (\<lambda>xs. Inr (x # xs)))"

text \<open>
  \<open>WHERE substr(created_at, 1, 10) BETWEEN ? AND ?\<close>, with \<open>AND service_id = ?\<close> appended
  under \<open>if service_id:\<close>, and \<open>ORDER BY created_at DESC\<close>. Text is compared byte by byte.
  SQL leaves the order of rows with equal \<open>created_at\<close> open; here they come in reverse
  table order.
\<close>

definition date_range_filter :: "string \<Rightarrow> string \<Rightarrow> string option \<Rightarrow> db_row \<Rightarrow> bool" where
  "date_range_filter start_date end_date sid r =
     (start_date \<le> take 10 (r_created_at r) \<and> take 10 (r_created_at r) \<le> end_date \<and>
      (case sid of
         None \<Rightarrow> True
       | Some s \<Rightarrow> if s \<noteq> [] then r_service_id r = s else True))"

definition select_by_date_range :: "table \<Rightarrow> string \<Rightarrow> string \<Rightarrow> string option \<Rightarrow> db_row list" where
  "select_by_date_range t start_date end_date sid =
     rev (sort_key r_created_at (filter (date_range_filter start_date end_date sid) t))"

definition get_incidents_by_date_range ::
    "table \<Rightarrow> string \<Rightarrow> string \<Rightarrow> string option \<Rightarrow> pyerror + incident list" where
  "get_incidents_by_date_range t start_date end_date sid =
     rows_to_incidents (select_by_date_range t start_date end_date sid)"

text \<open>The instant of a timestamp on the UTC time line (a naive one read as UTC).\<close>

definition utc_instant :: "datetime \<Rightarrow> int" where
  "utc_instant dt = to_us dt - (case tzoffset dt of None \<Rightarrow> 0 | Some off \<Rightarrow> off)"

text \<open>
  SQLite's \<open>DATE(X)\<close> on the text that \<open>isoformat\<close> writes, after SQLite's documentation of
  its date and time functions: a time string may end in a time zone \<open>[+-]HH:MM\<close>, which is
  subtracted to give UTC, and the date of that UTC time is returned; text that is not a time
  string gives \<open>NULL\<close>. The model is for text in the grammar of \<open>isoformat\<close> and for
  results in the years 1 to 9999.
\<close>

definition sqlite_date :: "string \<Rightarrow> string option" where
  "sqlite_date s =
     (case fromisoformat s of
        Inl e \<Rightarrow> None
      | Inr dt \<Rightarrow>
          if (case tzoffset dt of None \<Rightarrow> False | Some off \<Rightarrow> off mod 60000000 \<noteq> 0) then None
          else if length s > 10 \<and> s ! 10 \<noteq> CHR ''T'' \<and> s ! 10 \<noteq> CHR '' '' then None
          else let days = utc_instant dt div day_us
               in if days < 1 \<or> days > max_ordinal then None
                  else case ord2ymd (nat days) of (y, m, d) \<Rightarrow> Some (date_isoformat y m d))"

text \<open>\<open>date - timedelta(days=days)\<close>, as ISO text.\<close>

definition date_minus_days :: "datetime \<Rightarrow> int \<Rightarrow> pyerror + string" where
  "date_minus_days now days =
     (let ord = int (ymd2ord (year now) (month now) (day now)) - days
      in if \<bar>days\<bar> > 999999999 \<or> ord < 1 \<or> ord > max_ordinal then Inl OverflowError
         else case ord2ymd (nat ord) of (y, m, d) \<Rightarrow> Inr (date_isoformat y m d))"

text \<open>\<open>WHERE DATE(created_at) BETWEEN ? AND ?\<close>; a \<open>NULL\<close> date is in no range.\<close>

definition date_between :: "string \<Rightarrow> string \<Rightarrow> db_row \<Rightarrow> bool" where
  "date_between start_date end_date r =
     (case sqlite_date (r_created_at r) of
        None \<Rightarrow> False
      | Some d \<Rightarrow> start_date \<le> d \<and> d \<le> end_date)"

text \<open>\<open>IncidentDatabase.get_escalated_incidents_last_x_days\<close>; \<open>now\<close> is the current time in UTC-7.\<close>

definition get_escalated_incidents_last_x_days :: "datetime \<Rightarrow> table \<Rightarrow> int \<Rightarrow> pyerror + incident list" where
  "get_escalated_incidents_last_x_days now t days =
     (let end_date = date_isoformat (year now) (month now) (day now)
      in bindE (date_minus_days now days) (\<lambda>start_date.
           rows_to_incidents
             (rev (sort_key r_created_at
                [r \<leftarrow> t. date_between start_date end_date r \<and> r_is_escalated r = 1]))))"

text \<open>The counts of analytics\_v2.py: \<open>SELECT COUNT(*) ... WHERE DATE(created_at) BETWEEN ? AND ?\<close>.\<close>

definition get_total_incidents_last_x_days :: "datetime \<Rightarrow> table \<Rightarrow> int \<Rightarrow> pyerror + nat" where
  "get_total_incidents_last_x_days now t days =
     (let end_date = date_isoformat (year now) (month now) (day now)
      in bindE (date_minus_days now days) (\<lambda>start_date.
           Inr (length [r \<leftarrow> t. date_between start_date end_date r])))"

definition count_escalated_incidents_last_x_days :: "datetime \<Rightarrow> table \<Rightarrow> int \<Rightarrow> pyerror + nat" where
  "count_escalated_incidents_last_x_days now t days =
     (let end_date = date_isoformat (year now) (month now) (day now)
      in bindE (date_minus_days now days) (\<lambda>start_date.
           Inr (length [r \<leftarrow> t. date_between start_date end_date r \<and> r_is_escalated r = 1])))"






text \<open>The \<open>INSERT OR REPLACE\<close> for an incident succeeds (whatever the current time is).\<close>

definition storable :: "incident \<Rightarrow> bool" where
  "storable x = (\<not> isl (upsert_row [] x))"

section \<open>The API client (pagerduty\_client\_v2.py)\<close>

subsection \<open>Operations on Python values\<close>

text \<open>\<open>x.get(k, d)\<close>: only a dictionary has \<open>get\<close>. Keys of a \<open>PDict\<close> are distinct.\<close>

definition py_get :: "pyval \<Rightarrow> string \<Rightarrow> pyval \<Rightarrow> pyerror + pyval" where
  "py_get x k d =
     (case x of
        PDict kvs \<Rightarrow> Inr (case map_of kvs k of None \<Rightarrow> d | Some v \<Rightarrow> v)
      | _ \<Rightarrow> Inl AttributeError)"

text \<open>\<open>x[k]\<close> with a string key.\<close>

definition py_getitem :: "pyval \<Rightarrow> string \<Rightarrow> pyerror + pyval" where
  "py_getitem x k =
     (case x of
        PDict kvs \<Rightarrow> (case map_of kvs k of None \<Rightarrow> Inl (KeyError k) | Some v \<Rightarrow> Inr v)
      | _ \<Rightarrow> Inl TypeError)"

text \<open>\<open>x[0]\<close>.\<close>

definition py_first :: "pyval \<Rightarrow> pyerror + pyval" where
  "py_first x =
     (case x of
        PList vs \<Rightarrow> (case vs of [] \<Rightarrow> Inl IndexError | v # rest \<Rightarrow> Inr v)
      | PStr s \<Rightarrow> (case s of [] \<Rightarrow> Inl IndexError | c # rest \<Rightarrow> Inr (PStr [c]))
      | PDict kvs \<Rightarrow> Inl (KeyError ''0'')
      | _ \<Rightarrow> Inl TypeError)"

text \<open>Iterating over a value: the elements of a list, the characters of a string, the keys of a dictionary.\<close>

definition py_iter :: "pyval \<Rightarrow> pyerror + pyval list" where
  "py_iter x =
     (case x of
        PList vs \<Rightarrow> Inr vs
      | PStr s \<Rightarrow> Inr (map (\<lambda>c. PStr [c]) s)
      | PDict kvs \<Rightarrow> Inr (map (\<lambda>kv. PStr (fst kv)) kvs)
      | _ \<Rightarrow> Inl TypeError)"

text \<open>\<open>str.lower\<close> and \<open>str.strip\<close>, on ASCII letters and on the white space of Latin-1.\<close>

definition lower_char :: "char \<Rightarrow> char" where
  "lower_char c =
     (case map_of (zip ''ABCDEFGHIJKLMNOPQRSTUVWXYZ'' ''abcdefghijklmnopqrstuvwxyz'') c of
        None \<Rightarrow> c
      | Some l \<Rightarrow> l)"

definition py_lower :: "string \<Rightarrow> string" where
  "py_lower s = map lower_char s"

definition is_space :: "char \<Rightarrow> bool" where
  "is_space c = ((of_char c :: nat) \<in> {9, 10, 11, 12, 13, 28, 29, 30, 31, 32, 133, 160})"

definition py_strip :: "string \<Rightarrow> string" where
  "py_strip s = rev (dropWhile is_space (rev (dropWhile is_space s)))"

text \<open>\<open>v.lower()\<close> on a value: only a string has \<open>lower\<close>.\<close>

definition str_lower :: "pyval \<Rightarrow> pyerror + string" where
  "str_lower v = (case v of PStr s \<Rightarrow> Inr (py_lower s) | _ \<Rightarrow> Inl AttributeError)"

text \<open>\<open>s.replace('Z', '+00:00')\<close>.\<close>

definition replace_Z :: "string \<Rightarrow> string" where
  "replace_Z s = concat (map (\<lambda>c. if c = CHR ''Z'' then ''+00:00'' else [c]) s)"

text \<open>
  \<open>datetime.fromisoformat(v.replace('Z', '+00:00')).astimezone(self.utc_minus_7)\<close>.
\<close>

definition parse_api_time :: "int \<Rightarrow> pyval \<Rightarrow> pyerror + datetime" where
  "parse_api_time local v =
     (case v of
        PStr s \<Rightarrow> bindE (fromisoformat (replace_Z s)) (\<lambda>dt. astimezone local dt utc_minus_7)
      | _ \<Rightarrow> Inl AttributeError)"

subsection \<open>Enrichment calls\<close>

text \<open>
  What one HTTP request gives: a timeout, any other failure (a transport error, a status
  that \<open>raise_for_status\<close> rejects, a body that is not JSON), or the decoded JSON body.
\<close>

datatype http_result = Timeout | Failed | Response pyval

text \<open>One iteration of the loop over the custom fields in \<open>_get_incident_custom_fields\<close>.\<close>

definition scan_field :: "pyval \<Rightarrow> pyval \<times> pyval \<Rightarrow> pyerror + (pyval \<times> pyval)" where
  "scan_field field acc =
     bindE (py_get field ''name'' (PStr [])) (\<lambda>nm.
     bindE (str_lower nm) (\<lambda>field_name.
     bindE (py_get field ''value'' PNone) (\<lambda>field_value.
       if field_name = ''resolution'' \<and> truthy field_value
       then bindE (str_lower field_value) (\<lambda>l. Inr (PStr (py_strip l), snd acc))
       else if field_name = ''prelim_root_cause'' \<and> truthy field_value
       then bindE (str_lower field_value) (\<lambda>l. Inr (fst acc, PStr (py_strip l)))
       else Inr acc)))"

fun scan_fields :: "pyval list \<Rightarrow> pyval \<times> pyval \<Rightarrow> pyerror + (pyval \<times> pyval)" where
  "scan_fields [] acc = Inr acc"
| "scan_fields (f # fs) acc =
     (case scan_field f acc of Inl e \<Rightarrow> Inl e | Inr acc' \<Rightarrow> scan_fields fs acc')"

text \<open>The body of the \<open>try\<close> block, from the decoded response on.\<close>

definition parse_custom_fields :: "pyval \<Rightarrow> pyerror + (pyval \<times> pyval)" where
  "parse_custom_fields body =
     bindE (py_get body ''custom_fields'' (PList [])) (\<lambda>cfs.
     bindE (py_iter cfs) (\<lambda>fields. scan_fields fields (PNone, PNone)))"

definition custom_fields_dict :: "pyval \<times> pyval \<Rightarrow> pyval" where
  "custom_fields_dict rp = PDict [(''resolution'', fst rp), (''prelim_root_cause'', snd rp)]"

text \<open>
  The retry loop: \<open>responses k\<close> is what attempt \<open>k\<close> gives. Every exception of an attempt
  is caught; after the last attempt the default is returned. The result comes with the
  number of requests made.
\<close>

fun custom_fields_attempts :: "(nat \<Rightarrow> http_result) \<Rightarrow> nat \<Rightarrow> nat \<Rightarrow> nat \<times> pyval" where
  "custom_fields_attempts responses attempt 0 = (attempt, custom_fields_dict (PNone, PNone))"
| "custom_fields_attempts responses attempt (Suc n) =
     (case responses attempt of
        Response body \<Rightarrow>
          (case parse_custom_fields body of
             Inr rp \<Rightarrow> (attempt + 1, custom_fields_dict rp)
           | Inl e \<Rightarrow> custom_fields_attempts responses (attempt + 1) n)
      | _ \<Rightarrow> custom_fields_attempts responses (attempt + 1) n)"

definition get_incident_custom_fields :: "(nat \<Rightarrow> http_result) \<Rightarrow> nat \<times> pyval" where
  "get_incident_custom_fields responses = custom_fields_attempts responses 0 3"

fun any_escalate :: "pyval list \<Rightarrow> pyerror + bool" where
  "any_escalate [] = Inr False"
| "any_escalate (entry # entries) =
     (case py_get entry ''type'' PNone of
        Inl e \<Rightarrow> Inl e
      | Inr ty \<Rightarrow> if ty = PStr ''escalate_log_entry'' then Inr True else any_escalate entries)"

definition parse_log_entries :: "pyval \<Rightarrow> pyerror + bool" where
  "parse_log_entries body =
     bindE (py_get body ''log_entries'' (PList [])) (\<lambda>les. bindE (py_iter les) any_escalate)"

fun escalation_attempts :: "(nat \<Rightarrow> http_result) \<Rightarrow> nat \<Rightarrow> nat \<Rightarrow> nat \<times> bool" where
  "escalation_attempts responses attempt 0 = (attempt, False)"
| "escalation_attempts responses attempt (Suc n) =
     (case responses attempt of
        Response body \<Rightarrow>
          (case parse_log_entries body of
             Inr b \<Rightarrow> (attempt + 1, b)
           | Inl e \<Rightarrow> escalation_attempts responses (attempt + 1) n)
      | _ \<Rightarrow> escalation_attempts responses (attempt + 1) n)"

definition check_incident_escalation :: "(nat \<Rightarrow> http_result) \<Rightarrow> nat \<times> bool" where
  "check_incident_escalation responses = escalation_attempts responses 0 3"

subsection \<open>Conversion to the Record Model\<close>

text \<open>\<open>service_id_to_name.get(service_id, default)\<close>: the key must be hashable.\<close>

definition name_lookup :: "(string \<rightharpoonup> string) \<Rightarrow> pyval \<Rightarrow> pyval \<Rightarrow> pyerror + pyval" where
  "name_lookup names key d =
     (case key of
        PStr s \<Rightarrow> Inr (case names s of None \<Rightarrow> d | Some n \<Rightarrow> PStr n)
      | PList vs \<Rightarrow> Inl TypeError
      | PDict kvs \<Rightarrow> Inl TypeError
      | _ \<Rightarrow> Inr d)"

definition opt_api_time :: "int \<Rightarrow> pyval \<Rightarrow> pyerror + datetime option" where
  "opt_api_time local v =
     (if truthy v then bindE (parse_api_time local v) (\<lambda>dt. Inr (Some dt)) else Inr None)"

text \<open>The first acknowledgment's time, if there is one.\<close>

definition acknowledged_time :: "int \<Rightarrow> pyval \<Rightarrow> pyerror + datetime option" where
  "acknowledged_time local acknowledgments =
     (if truthy acknowledgments
      then bindE (py_first acknowledgments) (\<lambda>ack.
           bindE (py_get ack ''at'' (PStr [])) (opt_api_time local))
      else Inr None)"

text \<open>
  \<open>_convert_to_incident_object\<close>. \<open>local\<close> is the UTC offset of the system's time zone,
  which matters only for a timestamp without offset.
\<close>

definition convert_to_incident_object ::
    "int \<Rightarrow> pyval \<Rightarrow> bool \<Rightarrow> (string \<rightharpoonup> string) \<Rightarrow> pyval \<Rightarrow> pyerror + incident" where
  "convert_to_incident_object local raw_incident escalated service_id_to_name custom_fields =
     bindE (py_get raw_incident ''service'' (PDict [])) (\<lambda>service.
     bindE (py_get raw_incident ''escalation_policy'' (PDict [])) (\<lambda>escalation_policy.
     bindE (py_get service ''id'' (PStr [])) (\<lambda>v_service_id.
     bindE (py_get service ''name'' (PStr [])) (\<lambda>api_name.
     bindE (name_lookup service_id_to_name v_service_id api_name) (\<lambda>v_service_name.
     bindE (bindE (py_getitem raw_incident ''created_at'') (parse_api_time local)) (\<lambda>created.
     bindE (bindE (py_get raw_incident ''resolved_at'' PNone) (opt_api_time local)) (\<lambda>resolved.
     bindE (bindE (py_get raw_incident ''acknowledgments'' (PList []))
              (acknowledged_time local)) (\<lambda>acked.
     bindE (py_get (if truthy custom_fields then custom_fields else PDict [])
              ''resolution'' PNone) (\<lambda>resolution.
     bindE (str_lower resolution) (\<lambda>lowered.
     bindE (py_get (if truthy custom_fields then custom_fields else PDict [])
              ''prelim_root_cause'' PNone) (\<lambda>v_caused.
     bindE (py_getitem raw_incident ''id'') (\<lambda>v_id.
     bindE (py_get raw_incident ''title'' (PStr [])) (\<lambda>v_title.
     bindE (py_getitem raw_incident ''status'') (\<lambda>v_status.
     bindE (py_get escalation_policy ''id'' PNone) (\<lambda>v_policy_id.
     bindE (py_get escalation_policy ''name'' PNone) (\<lambda>v_policy_name.
     bindE (py_get raw_incident ''urgency'' (PStr ''low'')) (\<lambda>v_urgency.
     bindE (bindE (py_get raw_incident ''priority'' PNone) (\<lambda>p.
              if truthy p then py_get p ''name'' PNone else Inr PNone)) (\<lambda>v_priority.
     bindE (py_get raw_incident ''description'' (PStr [])) (\<lambda>v_description.
       Inr \<lparr>id' = v_id, title = v_title, status = v_status,
            service_id = v_service_id, service_name = v_service_name,
            created_at = created, resolved_at = resolved, acknowledged_at = acked,
            is_escalated = escalated,
            escalation_policy_id = v_policy_id, escalation_policy_name = v_policy_name,
            urgency = v_urgency, priority = v_priority, description = v_description,
            resolved_by_ccoe = (lowered = ''ccoe''),
            caused_by_infra = v_caused\<rparr>)))))))))))))))))))"

subsection \<open>Well-typed custom-field responses\<close>

text \<open>
  A response of the custom-field endpoint whose fields all have a string name and a string
  value, and the value that such a response determines for a field name: that of the last
  field with this name (compared in lower case) and a non-empty value, in lower case and
  without surrounding white space; \<open>None\<close> when there is no such field.
\<close>

definition custom_field_entry :: "string \<times> string \<Rightarrow> pyval" where
  "custom_field_entry nv = PDict [(''name'', PStr (fst nv)), (''value'', PStr (snd nv))]"

definition custom_fields_response :: "(string \<times> string) list \<Rightarrow> pyval" where
  "custom_fields_response nvs = PDict [(''custom_fields'', PList (map custom_field_entry nvs))]"


subsection \<open>Fetching incidents for a date range\<close>

text \<open>
  What \<open>fetch_incidents_for_date_range\<close> reads from outside: the result of
  \<open>load_services_from_config\<close> (the configured service ids and their names),
  \<open>datetime.strptime(s, "%Y-%m-%d")\<close> (\<open>None\<close> for its \<open>ValueError\<close>), the current time in
  UTC-7, and the three endpoints of the API. \<open>list_incidents ids since until offset\<close> is the
  answer to the listing request; \<open>log_entries i k\<close> and \<open>custom_field_values i k\<close> are the
  answers to attempt \<open>k\<close> of the two enrichment requests for the incident with id \<open>i\<close>.
\<close>

record environment =
  load_services_from_config :: "pyerror + (string list \<times> (string \<rightharpoonup> string))"
  strptime :: "string \<Rightarrow> datetime option"
  current_time :: datetime
  list_incidents :: "string list \<Rightarrow> string \<Rightarrow> string \<Rightarrow> nat \<Rightarrow> http_result"
  log_entries :: "pyval \<Rightarrow> nat \<Rightarrow> http_result"
  custom_field_values :: "pyval \<Rightarrow> nat \<Rightarrow> http_result"
  local_offset :: int

text \<open>
  The failure of a fetch: the \<open>ValueError\<close> of the service-id validation, with the two lists
  that its message prints (\<open>Invalid service IDs: ... Available: ...\<close>), or any other
  exception.
\<close>

datatype fetch_failure = ValidationError "string list" "string list" | Raised pyerror

text \<open>\<open>strptime(s, "%Y-%m-%d").replace(tzinfo=self.utc_minus_7)\<close>.\<close>

definition parse_day :: "environment \<Rightarrow> string \<Rightarrow> pyerror + datetime" where
  "parse_day e s =
     (case strptime e s of
        None \<Rightarrow> Inl ValueError
      | Some dt \<Rightarrow> Inr (dt\<lparr>tzoffset := Some utc_minus_7\<rparr>))"

text \<open>\<open>if end_date:\<close> and \<open>if start_date:\<close> hold for a non-empty string.\<close>

definition given :: "string option \<Rightarrow> bool" where
  "given d = (case d of None \<Rightarrow> False | Some s \<Rightarrow> s \<noteq> [])"

definition time_window ::
    "environment \<Rightarrow> string option \<Rightarrow> string option \<Rightarrow> int \<Rightarrow> pyerror + (string \<times> string)" where
  "time_window e start_date end_date days =
     bindE (if given end_date
            then bindE (parse_day e (the end_date))
                   (\<lambda>dt. Inr (dt\<lparr>hour := 23, minute := 59, second := 59\<rparr>))
            else Inr (current_time e)) (\<lambda>end_time.
     bindE (if given start_date then parse_day e (the start_date)
            else if \<bar>days - 1\<bar> > 999999999 then Inl OverflowError
            else bindE (of_us (to_us end_time - (days - 1) * day_us) (tzoffset end_time))
                   (\<lambda>st. Inr (st\<lparr>hour := 0, minute := 0, second := 0, microsecond := 0\<rparr>)))
       (\<lambda>start_time. Inr (isoformat start_time, isoformat end_time)))"

text \<open>
  One page of \<open>_fetch_incidents_from_api\<close>: the incidents of the page, and whether the loop
  goes on (\<open>more\<close> is set and the page is full).
\<close>

definition page_step :: "pyval \<Rightarrow> pyerror + (pyval list \<times> bool)" where
  "page_step data =
     bindE (py_get data ''incidents'' (PList [])) (\<lambda>incidents.
       if \<not> truthy incidents then Inr ([], False)
       else bindE (py_iter incidents) (\<lambda>items.
            bindE (py_get data ''more'' (PBool False)) (\<lambda>more.
              Inr (items, truthy more \<and> \<not> length items < 100))))"

text \<open>
  The \<open>while True\<close> loop over the pages, with fuel: \<open>None\<close> when the fuel runs out, that is
  when the API keeps announcing more pages. The listing request is not retried: a timeout
  or a failure ends the fetch. The result comes with the number of requests made.
\<close>

fun fetch_pages ::
    "nat \<Rightarrow> (nat \<Rightarrow> http_result) \<Rightarrow> nat \<Rightarrow> pyval list \<Rightarrow> nat \<Rightarrow> (nat \<times> (pyerror + pyval list)) option" where
  "fetch_pages 0 api offset all_incidents calls = None"
| "fetch_pages (Suc fuel) api offset all_incidents calls =
     (case api offset of
        Timeout \<Rightarrow> Some (calls + 1, Inl RequestTimeout)
      | Failed \<Rightarrow> Some (calls + 1, Inl HTTPError)
      | Response data \<Rightarrow>
          (case page_step data of
             Inl err \<Rightarrow> Some (calls + 1, Inl err)
           | Inr (items, continue) \<Rightarrow>
               if continue
               then fetch_pages fuel api (offset + 100) (all_incidents @ items) (calls + 1)
               else Some (calls + 1, Inr (all_incidents @ items))))"

text \<open>
  The loop over the raw incidents. The batches of twenty only pace the requests and the
  progress messages, so the loop is written over the whole list. An exception of the
  conversion ends the fetch.
\<close>

fun process_incidents ::
    "environment \<Rightarrow> (string \<rightharpoonup> string) \<Rightarrow> pyval list \<Rightarrow> nat \<Rightarrow> nat \<times> (pyerror + incident list)" where
  "process_incidents e names [] calls = (calls, Inr [])"
| "process_incidents e names (raw_incident # rest) calls =
     (case py_getitem raw_incident ''id'' of
        Inl err \<Rightarrow> (calls, Inl err)
      | Inr incident_id \<Rightarrow>
          (case check_incident_escalation (log_entries e incident_id) of
             (n1, escalated) \<Rightarrow>
               (case get_incident_custom_fields (custom_field_values e incident_id) of
                  (n2, custom_fields) \<Rightarrow>
                    (case convert_to_incident_object (local_offset e) raw_incident escalated
                            names custom_fields of
                       Inl err \<Rightarrow> (calls + n1 + n2, Inl err)
                     | Inr x \<Rightarrow>
                         (case process_incidents e names rest (calls + n1 + n2) of
                            (c, Inl err) \<Rightarrow> (c, Inl err)
                          | (c, Inr xs) \<Rightarrow> (c, Inr (x # xs)))))))"

text \<open>
  \<open>fetch_incidents_for_date_range\<close>. The result is \<open>None\<close> when the paging does not end
  within the fuel; otherwise it is the number of API requests made, with the incidents or
  the failure.
\<close>

definition fetch_incidents_for_date_range ::
    "nat \<Rightarrow> environment \<Rightarrow> string option \<Rightarrow> string option \<Rightarrow> int \<Rightarrow> string list option \<Rightarrow>
     (nat \<times> (fetch_failure + incident list)) option" where
  "fetch_incidents_for_date_range fuel e start_date end_date days service_ids =
     (case load_services_from_config e of
        Inl err \<Rightarrow> Some (0, Inl (Raised err))
      | Inr (all_service_ids, service_id_to_name) \<Rightarrow>
          (let invalid_ids =
                 (case service_ids of
                    None \<Rightarrow> []
                  | Some sids \<Rightarrow> [sid \<leftarrow> sids. sid \<notin> set all_service_ids]);
               ids = (case service_ids of None \<Rightarrow> all_service_ids | Some sids \<Rightarrow> sids)
           in if invalid_ids \<noteq> [] then Some (0, Inl (ValidationError invalid_ids all_service_ids))
              else case time_window e start_date end_date days of
                     Inl err \<Rightarrow> Some (0, Inl (Raised err))
                   | Inr (since, until) \<Rightarrow>
                       (case fetch_pages fuel (list_incidents e ids since until) 0 [] 0 of
                          None \<Rightarrow> None
                        | Some (calls, Inl err) \<Rightarrow> Some (calls, Inl (Raised err))
                        | Some (calls, Inr raw_incidents) \<Rightarrow>
                            (case process_incidents e service_id_to_name raw_incidents calls of
                               (c, Inl err) \<Rightarrow> Some (c, Inl (Raised err))
                             | (c, Inr incidents) \<Rightarrow> Some (c, Inr incidents)))))"

section \<open>Sample values\<close>

text \<open>An incident of the test fixtures, with its creation time as a parameter.\<close>

definition sample_incident :: "datetime \<Rightarrow> incident" where
  "sample_incident dt =
     \<lparr>id' = PStr ''Q1ABC123DEF'', title = PStr ''Database Connection Timeout'',
      status = PStr ''triggered'', service_id = PStr ''PHMCGNE'',
      service_name = PStr ''Production Database Service'',
      created_at = dt, resolved_at = None, acknowledged_at = None, is_escalated = True,
      escalation_policy_id = PNone, escalation_policy_name = PNone,
      urgency = PStr ''low'', priority = PNone, description = PNone,
      resolved_by_ccoe = False, caused_by_infra = PNone\<rparr>"





text \<open>
  The batch of the test \<open>test_store_incidents_batch_with_errors\<close>: valid incidents, one of
  them with its \<open>id\<close> set to \<open>None\<close>.
\<close>

definition with_id :: "pyval \<Rightarrow> incident" where
  "with_id v = (sample_incident (mk_datetime 2025 8 23 10 0 0 0 (Some utc_minus_7)))\<lparr>id' := v\<rparr>"

definition mixed_batch :: "incident list" where
  "mixed_batch =
     [with_id (PStr ''INC1''), with_id PNone, with_id (PStr ''INC2''), with_id (PStr ''INC3''),
      with_id (PStr ''INC4''), with_id (PStr ''INC5'')]"

definition fixed_clock :: "nat \<Rightarrow> string" where
  "fixed_clock k = ''2025-08-23T12:00:00-07:00''"




text \<open>An escalated incident created at 20:30 in UTC-7, and a current time later that evening.\<close>

definition late_incident :: incident where
  "late_incident = sample_incident (mk_datetime 2024 3 15 20 30 0 0 (Some utc_minus_7))"

definition late_table :: table where
  "late_table = snd (store_incidents_batch fixed_clock [] [late_incident])"

definition late_now :: datetime where
  "late_now = mk_datetime 2024 3 15 23 0 0 0 (Some utc_minus_7)"

text \<open>The first incident of the fixture \<open>SAMPLE_PAGERDUTY_INCIDENTS_RESPONSE\<close> and its conversion.\<close>

definition sample_raw :: pyval where
  "sample_raw = PDict
     [(''id'', PStr ''Q1ABC123DEF''),
      (''title'', PStr ''Database Connection Timeout''),
      (''status'', PStr ''resolved''),
      (''service'', PDict [(''id'', PStr ''PHMCGNE''),
                           (''summary'', PStr ''Production Database Service'')]),
      (''created_at'', PStr ''2025-08-23T10:00:00-07:00''),
      (''updated_at'', PStr ''2025-08-23T11:30:00-07:00''),
      (''escalation_policy'', PDict [(''id'', PStr ''POLICY123''),
                                     (''summary'', PStr ''Database Team Escalation'')]),
      (''urgency'', PStr ''high''),
      (''priority'', PDict [(''summary'', PStr ''P1'')]),
      (''description'', PStr ''Database connection timeouts'')]"

definition sample_names :: "string \<rightharpoonup> string" where
  "sample_names = map_of [(''PHMCGNE'', ''Production Database Service'')]"


definition no_custom_fields :: "nat \<Rightarrow> http_result" where
  "no_custom_fields k = Response (custom_fields_response [])"



text \<open>An environment with two configured services and no incident in the window.\<close>

definition quiet_env :: environment where
  "quiet_env =
     \<lparr>load_services_from_config = Inr ([''PHMCGNE'', ''PABCDEF''], sample_names),
      strptime = (\<lambda>s. None),
      current_time = mk_datetime 2025 8 23 12 0 0 0 (Some utc_minus_7),
      list_incidents = (\<lambda>ids since until offset. Response (PDict [(''incidents'', PList [])])),
      log_entries = (\<lambda>i k. Failed),
      custom_field_values = (\<lambda>i k. Failed),
      local_offset = 0\<rparr>"

section \<open>Round trip of timestamps through ISO-8601 text\<close>

lemma below_ten: "n < 10 \<Longrightarrow> n \<in> set [0, 1, 2, 3, 4, 5, 6, 7, 8, 9 :: nat]"
  by simp arith

lemma digit_char_digit [simp]: "n < 10 \<Longrightarrow> is_digit (digit_char n)"
  by (drule below_ten) (auto simp add: is_digit_def digit_char_def digits_def)

lemma digit_val_digit_char [simp]: "n < 10 \<Longrightarrow> digit_val (digit_char n) = n"
  by (drule below_ten) (auto simp add: digit_char_def digit_val_def digits_def)

lemma digit_char_not_punct [simp]:
  "n < 10 \<Longrightarrow> digit_char n \<noteq> CHR ''-''" "n < 10 \<Longrightarrow> digit_char n \<noteq> CHR ''+''"
  "n < 10 \<Longrightarrow> digit_char n \<noteq> CHR '':''" "n < 10 \<Longrightarrow> digit_char n \<noteq> CHR ''.''"
  "n < 10 \<Longrightarrow> CHR ''-'' \<noteq> digit_char n" "n < 10 \<Longrightarrow> CHR ''+'' \<noteq> digit_char n"
  by (drule below_ten, auto simp add: digit_char_def digits_def)+

lemma dm: "10 * (m div 10) + m mod 10 = (m::nat)"
  by simp

lemma int_of_digits_pad2 [simp]: "n < 100 \<Longrightarrow> int_of_digits (pad2 n) = Some n"
  by (simp add: int_of_digits_def pad2_def)

lemma digit_val_mod: "digit_val (digit_char (k mod 10)) = k mod 10"
  by simp

lemma all_digit_pad: "list_all is_digit (pad4 n)" "list_all is_digit (pad6 n)"
  by (simp_all add: pad4_def pad6_def)

lemma int_of_digits_pad4 [simp]:
  assumes "n < 10000" shows "int_of_digits (pad4 n) = Some n"
proof -
  have a: "n div 1000 mod 10 = n div 100 div 10"
    using assms by (simp add: div_mult2_eq)
  have c: "n div 100 = n div 10 div 10" by (simp add: div_mult2_eq)
  have "foldl (\<lambda>a c. 10 * a + digit_val c) 0 (pad4 n) =
        10 * (10 * (10 * (10 * 0 + n div 1000 mod 10) + n div 100 mod 10) + n div 10 mod 10) + n mod 10"
    by (simp only: pad4_def foldl.simps digit_val_mod)
  also have "\<dots> = n"
    unfolding mult_0_right add_0_left a dm unfolding c dm by simp
  finally show ?thesis
    by (simp add: int_of_digits_def all_digit_pad) (simp add: pad4_def)
qed

lemma int_of_digits_pad6 [simp]:
  assumes "n < 1000000" shows "int_of_digits (pad6 n) = Some n"
proof -
  have a: "n div 100000 mod 10 = n div 10000 div 10"
    using assms by (simp add: div_mult2_eq)
  have c1: "n div 10000 = n div 1000 div 10" by (simp add: div_mult2_eq)
  have c2: "n div 1000 = n div 100 div 10" by (simp add: div_mult2_eq)
  have c3: "n div 100 = n div 10 div 10" by (simp add: div_mult2_eq)
  have "foldl (\<lambda>a c. 10 * a + digit_val c) 0 (pad6 n) =
        10 * (10 * (10 * (10 * (10 * (10 * 0 + n div 100000 mod 10) + n div 10000 mod 10) +
          n div 1000 mod 10) + n div 100 mod 10) + n div 10 mod 10) + n mod 10"
    by (simp only: pad6_def foldl.simps digit_val_mod)
  also have "\<dots> = n"
    unfolding mult_0_right add_0_left a dm unfolding c1 dm unfolding c2 dm unfolding c3 dm by simp
  finally show ?thesis
    by (simp add: int_of_digits_def all_digit_pad) (simp add: pad6_def)
qed

lemma length_pad [simp]: "length (pad2 n) = 2" "length (pad4 n) = 4" "length (pad6 n) = 6"
  by (simp_all add: pad2_def pad4_def pad6_def)

lemma take_pad [simp]:
  "take 2 (pad2 n @ r) = pad2 n" "take 4 (pad4 n @ r) = pad4 n"
  "drop 2 (pad2 n @ r) = r" "drop 4 (pad4 n @ r) = r"
  by simp_all

lemma parse_date_print:
  "y < 10000 \<Longrightarrow> m < 100 \<Longrightarrow> d < 100 \<Longrightarrow>
   parse_isoformat_date (date_isoformat y m d) = Some (y, m, d)"
  by (simp add: parse_isoformat_date_def date_isoformat_def nth_append)

lemma parse_time_print:
  "h < 100 \<Longrightarrow> m < 100 \<Longrightarrow> s < 100 \<Longrightarrow> us < 1000000 \<Longrightarrow>
   parse_hh_mm_ss_ff (time_isoformat h m s us) = Some (h, m, s, us)"
  by (simp add: parse_hh_mm_ss_ff_def time_isoformat_def nth_append parse_fraction_def)

lemma parse_offset_print:
  "hh < 100 \<Longrightarrow> mm < 100 \<Longrightarrow> ss < 100 \<Longrightarrow> us < 1000000 \<Longrightarrow>
   parse_hh_mm_ss_ff (offset_body hh mm ss us) = Some (hh, mm, ss, us)"
  by (simp add: parse_hh_mm_ss_ff_def offset_body_def nth_append parse_fraction_def)

lemma length_offset_body:
  "length (offset_body hh mm ss us) = 5 \<or> length (offset_body hh mm ss us) = 8 \<or>
   length (offset_body hh mm ss us) = 15"
  by (simp add: offset_body_def)

lemma str_find_notin: "c \<notin> set xs \<Longrightarrow> str_find c xs = None"
  by (induction xs) auto

lemma str_find_append: "c \<notin> set xs \<Longrightarrow> str_find c (xs @ c # ys) = Some (length xs)"
  by (induction xs) auto

lemma no_sign_time:
  "CHR ''-'' \<notin> set (time_isoformat h m s us)" "CHR ''+'' \<notin> set (time_isoformat h m s us)"
  by (simp_all add: time_isoformat_def pad2_def pad6_def)

lemma no_sign_offset:
  "CHR ''-'' \<notin> set (offset_body hh mm ss us)"
  by (simp add: offset_body_def pad2_def pad6_def)

lemma format_offset_Some:
  "format_offset (Some off) =
     (if off < 0 then CHR ''-'' else CHR ''+'') #
     offset_body (nat \<bar>off\<bar> div 3600000000) (nat \<bar>off\<bar> mod 3600000000 div 60000000)
       (nat \<bar>off\<bar> mod 60000000 div 1000000) (nat \<bar>off\<bar> mod 1000000)"
  by (simp add: format_offset_def offset_body_def Let_def)

lemma offset_recompose:
  fixes a :: nat
  shows "((a div 3600000000 * 60 + a mod 3600000000 div 60000000) * 60 +
           a mod 60000000 div 1000000) * 1000000 + a mod 1000000 = a"
proof -
  have d1: "(60000000::nat) dvd 3600000000" by (rule dvdI [where k = 60]) simp
  have d2: "(1000000::nat) dvd 60000000" by (rule dvdI [where k = 60]) simp
  have m1: "a mod 3600000000 mod 60000000 = a mod 60000000"
    by (rule mod_mod_cancel [OF d1])
  have m2: "a mod 60000000 mod 1000000 = a mod 1000000"
    by (rule mod_mod_cancel [OF d2])
  have e1: "a = 3600000000 * (a div 3600000000) + a mod 3600000000" by simp
  have e2: "a mod 3600000000 = 60000000 * (a mod 3600000000 div 60000000) + a mod 60000000"
    using mult_div_mod_eq [of 60000000 "a mod 3600000000"] m1 by simp
  have e3: "a mod 60000000 = 1000000 * (a mod 60000000 div 1000000) + a mod 1000000"
    using mult_div_mod_eq [of 1000000 "a mod 60000000"] m2 by simp
  have g: "\<And>A B C U :: nat. ((A * 60 + B) * 60 + C) * 1000000 + U =
          3600000000 * A + (60000000 * B + (1000000 * C + U))"
    by (simp add: algebra_simps)
  show ?thesis
    unfolding g e3 [symmetric] e2 [symmetric] e1 [symmetric] ..
qed

lemma offset_bounds:
  fixes a :: nat
  assumes "a < 86400000000"
  shows "a div 3600000000 < 100" "a mod 3600000000 div 60000000 < 100"
        "a mod 60000000 div 1000000 < 100" "a mod 1000000 < 1000000"
proof -
  show "a div 3600000000 < 100" using assms by (simp add: div_less_iff_less_mult)
  have "a mod 3600000000 < 3600000000" by simp
  then show "a mod 3600000000 div 60000000 < 100" by (simp add: div_less_iff_less_mult)
  have "a mod 60000000 < 60000000" by simp
  then show "a mod 60000000 div 1000000 < 100" by (simp add: div_less_iff_less_mult)
  show "a mod 1000000 < 1000000" by simp
qed

lemma parse_time_print_tz:
  assumes "h < 100" "m < 100" "s < 100" "us < 1000000"
    and "case tz of None \<Rightarrow> True | Some off \<Rightarrow> - day_us < off \<and> off < day_us"
  shows "parse_isoformat_time (time_isoformat h m s us @ format_offset tz) =
         Some ((h, m, s, us), tz)"
proof -
  let ?T = "time_isoformat h m s us"
  have lenT: "2 \<le> length ?T" by (simp add: time_isoformat_def)
  have pT: "parse_hh_mm_ss_ff ?T = Some (h, m, s, us)"
    using assms by (simp add: parse_time_print)
  show ?thesis
  proof (cases tz)
    case None
    have "tz_pos ?T = 0"
      by (simp add: tz_pos_def str_find_notin no_sign_time)
    then show ?thesis using None lenT pT
      by (simp add: parse_isoformat_time_def format_offset_def parse_tz_def)
  next
    case (Some off)
    define a where "a = nat \<bar>off\<bar>"
    have a_lt: "a < 86400000000" using assms(5) Some unfolding a_def day_us_def by simp linarith
    let ?B = "offset_body (a div 3600000000) (a mod 3600000000 div 60000000)
                (a mod 60000000 div 1000000) (a mod 1000000)"
    let ?c = "if off < 0 then CHR ''-'' else CHR ''+''"
    have fo: "format_offset tz = ?c # ?B"
      unfolding Some format_offset_Some a_def ..
    have pB: "parse_hh_mm_ss_ff ?B = Some (a div 3600000000, a mod 3600000000 div 60000000,
                a mod 60000000 div 1000000, a mod 1000000)"
      using offset_bounds [OF a_lt] by (rule parse_offset_print)
    have pos: "tz_pos (?T @ ?c # ?B) = length ?T + 1"
    proof (cases "off < 0")
      case True
      then show ?thesis by (simp add: tz_pos_def str_find_append no_sign_time)
    next
      case False
      have "CHR ''-'' \<notin> set (?T @ CHR ''+'' # ?B)"
        by (simp add: no_sign_time no_sign_offset)
      then have "str_find CHR ''-'' (?T @ CHR ''+'' # ?B) = None" by (rule str_find_notin)
      then show ?thesis using False by (simp add: tz_pos_def str_find_append no_sign_time)
    qed
    have td: "int (((a div 3600000000 * 60 + a mod 3600000000 div 60000000) * 60 +
           a mod 60000000 div 1000000) * 1000000 + a mod 1000000) = \<bar>off\<bar>"
      unfolding offset_recompose by (simp add: a_def)
    have dr: "drop (length ?T + 1) (?T @ ?c # ?B) = ?B" by simp
    have nth: "(?T @ ?c # ?B) ! (length ?T + 1 - 1) = ?c" by (simp add: nth_append)
    have ptz: "parse_tz (?T @ ?c # ?B) (length ?T + 1) = Some (Some off)"
      unfolding parse_tz_def Let_def dr nth pB option.case prod.case td
      using length_offset_body [of "a div 3600000000" "a mod 3600000000 div 60000000"
                "a mod 60000000 div 1000000" "a mod 1000000"] assms(5) Some
      by auto
    show ?thesis
      unfolding fo parse_isoformat_time_def Let_def pos using lenT pT ptz Some
      by auto
  qed
qed

lemma valid_days: "valid_datetime dt \<Longrightarrow> day dt < 100"
  by (auto simp add: valid_datetime_def days_in_month_def split: if_splits)

theorem fromisoformat_isoformat:
  assumes "valid_datetime dt"
  shows "fromisoformat (isoformat dt) = Inr dt"
proof -
  let ?D = "date_isoformat (year dt) (month dt) (day dt)"
  let ?R = "time_isoformat (hour dt) (minute dt) (second dt) (microsecond dt) @
            format_offset (tzoffset dt)"
  have lenD: "length ?D = 10" by (simp add: date_isoformat_def)
  have t10: "take 10 (isoformat dt) = ?D" "drop 11 (isoformat dt) = ?R"
    using lenD by (simp_all add: isoformat_def)
  have ne: "(?R = []) = False" by (simp add: time_isoformat_def pad2_def)
  have pd: "parse_isoformat_date ?D = Some (year dt, month dt, day dt)"
    using assms valid_days [OF assms] by (intro parse_date_print) (simp_all add: valid_datetime_def)
  have pt: "parse_isoformat_time ?R =
            Some ((hour dt, minute dt, second dt, microsecond dt), tzoffset dt)"
    using assms by (intro parse_time_print_tz) (simp_all add: valid_datetime_def)
  have mk: "mk_datetime (year dt) (month dt) (day dt) (hour dt) (minute dt) (second dt)
              (microsecond dt) (tzoffset dt) = dt"
    by (simp add: mk_datetime_def)
  show ?thesis
    unfolding fromisoformat_def t10 pd ne using pt mk assms by simp
qed

section \<open>Record Model: serialisation round trip and the date key\<close>

lemma isoformat_nonempty: "isoformat dt \<noteq> []"
  by (simp add: isoformat_def date_isoformat_def pad4_def)

lemma opt_fromisoformat_opt_isoformat:
  "(case d of None \<Rightarrow> True | Some dt \<Rightarrow> valid_datetime dt) \<Longrightarrow>
   opt_fromisoformat (opt_isoformat d) = Inr d"
  by (cases d)
     (simp_all add: opt_fromisoformat_def opt_isoformat_def py_fromisoformat_def bindE_def
        isoformat_nonempty fromisoformat_isoformat)

lemma from_dict_of_timestamps:
  assumes "data ''created_at'' = Some (PStr (isoformat c))" "valid_datetime c"
    and "data ''resolved_at'' = Some (opt_isoformat r)"
        "case r of None \<Rightarrow> True | Some dt \<Rightarrow> valid_datetime dt"
    and "data ''acknowledged_at'' = Some (opt_isoformat a)"
        "case a of None \<Rightarrow> True | Some dt \<Rightarrow> valid_datetime dt"
    and "data ''id'' = Some v1" "data ''title'' = Some v2" "data ''status'' = Some v3"
        "data ''service_id'' = Some v4" "data ''service_name'' = Some v5"
        "data ''is_escalated'' = Some v6" "data ''escalation_policy_id'' = Some v7"
        "data ''escalation_policy_name'' = Some v8" "data ''urgency'' = Some v9"
        "data ''priority'' = Some v10" "data ''description'' = Some v11"
  shows "from_dict data =
         Inr \<lparr>id' = v1, title = v2, status = v3, service_id = v4, service_name = v5,
              created_at = c, resolved_at = r, acknowledged_at = a,
              is_escalated = truthy v6,
              escalation_policy_id = v7, escalation_policy_name = v8,
              urgency = v9, priority = v10, description = v11,
              resolved_by_ccoe = truthy (get_default data ''resolved_by_ccoe'' (PBool False)),
              caused_by_infra = get_default data ''caused_by_infra'' PNone\<rparr>"
  unfolding from_dict_def getitem_def
  by (simp add: assms bindE_def py_fromisoformat_def fromisoformat_isoformat
        opt_fromisoformat_opt_isoformat)

lemma bools_as_ints_to_dict:
  "bools_as_ints (to_dict x) ''is_escalated'' = Some (PInt (if is_escalated x then 1 else 0))"
  "bools_as_ints (to_dict x) ''resolved_by_ccoe'' = Some (PInt (if resolved_by_ccoe x then 1 else 0))"
  "k \<noteq> ''is_escalated'' \<Longrightarrow> k \<noteq> ''resolved_by_ccoe'' \<Longrightarrow> bools_as_ints (to_dict x) k = to_dict x k"
  by (simp_all add: bools_as_ints_def to_dict_def)

text \<open>
  C3. For every incident whose timestamps are valid \<open>datetime\<close>s, optional fields present
  or absent, \<open>from_dict (to_dict x)\<close> is \<open>x\<close>: the timestamps are written as ISO-8601 text
  and parsed back to the same \<open>datetime\<close>; and the same holds when the two boolean entries of
  the dictionary are the integers 0 and 1, as the storage layer returns them.
\<close>

theorem from_dict_to_dict:
  assumes "valid_incident x"
  shows "from_dict (to_dict x) = Inr x \<and> from_dict (bools_as_ints (to_dict x)) = Inr x"
proof
  have v: "valid_datetime (created_at x)"
    "case resolved_at x of None \<Rightarrow> True | Some dt \<Rightarrow> valid_datetime dt"
    "case acknowledged_at x of None \<Rightarrow> True | Some dt \<Rightarrow> valid_datetime dt"
    using assms by (simp_all add: valid_incident_def)
  show "from_dict (to_dict x) = Inr x"
    by (subst from_dict_of_timestamps [where c = "created_at x" and r = "resolved_at x"
          and a = "acknowledged_at x"])
       (simp_all add: v to_dict_def get_default_def, (rule incident.equality; simp))
  have "from_dict (bools_as_ints (to_dict x)) =
     Inr \<lparr>id' = id' x, title = title x, status = status x, service_id = service_id x,
          service_name = service_name x,
          created_at = created_at x, resolved_at = resolved_at x,
          acknowledged_at = acknowledged_at x,
          is_escalated = truthy (PInt (if is_escalated x then 1 else 0)),
          escalation_policy_id = escalation_policy_id x,
          escalation_policy_name = escalation_policy_name x,
          urgency = urgency x, priority = priority x, description = description x,
          resolved_by_ccoe = truthy (get_default (bools_as_ints (to_dict x)) ''resolved_by_ccoe'' (PBool False)),
          caused_by_infra = get_default (bools_as_ints (to_dict x)) ''caused_by_infra'' PNone\<rparr>"
    by (rule from_dict_of_timestamps)
       (simp_all add: v bools_as_ints_to_dict, simp_all add: to_dict_def)
  also have "\<dots> = Inr x"
    by (simp add: get_default_def bools_as_ints_to_dict) (simp add: to_dict_def)
  finally show "from_dict (bools_as_ints (to_dict x)) = Inr x" .
qed

lemma valid_sample_dt:
  "valid_datetime (mk_datetime 2025 8 23 10 0 0 0 (Some utc_minus_7))"
  by (simp add: valid_datetime_def mk_datetime_def days_in_month_def is_leap_def day_us_def
        utc_minus_7_def)

theorem from_dict_to_dict_witness:
  "valid_incident (sample_incident (mk_datetime 2025 8 23 10 0 0 0 (Some utc_minus_7))) \<and>
   from_dict (to_dict (sample_incident (mk_datetime 2025 8 23 10 0 0 0 (Some utc_minus_7)))) =
     Inr (sample_incident (mk_datetime 2025 8 23 10 0 0 0 (Some utc_minus_7))) \<and>
   from_dict (bools_as_ints
       (to_dict (sample_incident (mk_datetime 2025 8 23 10 0 0 0 (Some utc_minus_7))))) =
     Inr (sample_incident (mk_datetime 2025 8 23 10 0 0 0 (Some utc_minus_7)))"
proof -
  have v: "valid_incident (sample_incident (mk_datetime 2025 8 23 10 0 0 0 (Some utc_minus_7)))"
    using valid_sample_dt by (simp add: valid_incident_def sample_incident_def)
  show ?thesis using v from_dict_to_dict [OF v] by simp
qed

lemmas calendar_defs = astimezone_def of_us_def to_us_def ord2ymd_def ymd2ord_def
  days_before_year_def days_before_month_def days_before_month_tab_def is_leap_def
  mk_datetime_def day_us_def max_ordinal_def utc_minus_7_def Let_def bindE_def

lemmas print_defs = date_isoformat_def time_isoformat_def format_offset_def pad2_def pad4_def
  pad6_def digit_char_def digits_def

text \<open>
  A timezone-aware \<open>created_at\<close> at 00:30 UTC falls on the previous calendar date under
  UTC-7, whatever the system's time zone is.
\<close>

lemma get_date_str_aware_prior_day:
  "get_date_str_utc_minus_7 local (sample_incident (mk_datetime 2025 8 24 0 30 0 0 (Some 0))) =
   Inr ''2025-08-23''"
  by (simp add: get_date_str_utc_minus_7_def sample_incident_def calendar_defs print_defs)

text \<open>
  C2. The date key of a naive \<open>created_at\<close> is not its own calendar date:
  \<open>astimezone\<close> reads a naive timestamp in the system's local time zone, so on a host
  running in UTC the naive timestamp 2025-08-23 03:00 gets the date key 2025-08-22.
\<close>

theorem get_date_str_naive_uses_system_zone:
  "get_date_str_utc_minus_7 0 (sample_incident (mk_datetime 2025 8 23 3 0 0 0 None)) =
   Inr ''2025-08-22''"
  by (simp add: get_date_str_utc_minus_7_def sample_incident_def calendar_defs print_defs)

section \<open>Persistence Store: upsert, batch and key uniqueness\<close>

lemma bindE_Inr: "bindE m f = Inr y \<longleftrightarrow> (\<exists>x. m = Inr x \<and> f x = Inr y)"
  by (cases m) (simp_all add: bindE_def)














text \<open>
  The batch never raises, skips exactly the records whose insert fails, and returns the
  number of records whose insert succeeds.
\<close>

lemma upsert_row_clock:
  "upsert_row n x = Inr r \<Longrightarrow> upsert_row n' x = Inr (r\<lparr>r_updated_at := n'\<rparr>)"
  unfolding upsert_row_def bindE_Inr by auto

lemma storable_iff: "storable x \<longleftrightarrow> (\<exists>r. upsert_row n x = Inr r)"
proof
  assume "storable x"
  then obtain r where "upsert_row [] x = Inr r"
    unfolding storable_def by (cases "upsert_row [] x") auto
  then show "\<exists>r. upsert_row n x = Inr r" using upsert_row_clock by blast
next
  assume "\<exists>r. upsert_row n x = Inr r"
  then obtain r where "upsert_row n x = Inr r" ..
  then have "upsert_row [] x = Inr (r\<lparr>r_updated_at := []\<rparr>)" by (rule upsert_row_clock)
  then show "storable x" by (simp add: storable_def)
qed

lemma store_loop_count:
  "fst (store_loop clock k t c xs) = c + length (filter storable xs)"
proof (induction xs arbitrary: k t c)
  case Nil
  then show ?case by simp
next
  case (Cons x xs)
  show ?case
  proof (cases "upsert_row (clock k) x")
    case (Inl e)
    then have "\<not> storable x" using storable_iff [of x "clock k"] by simp
    then show ?thesis using Inl Cons.IH by simp
  next
    case (Inr r)
    then have "storable x" using storable_iff [of x "clock k"] by simp
    then show ?thesis using Inr Cons.IH by simp
  qed
qed

lemma store_incidents_batch_count:
  "fst (store_incidents_batch clock t xs) = length (filter storable xs)"
  by (simp add: store_incidents_batch_def store_loop_count)

text \<open>
  C6. The batch of the test suite with one \<open>id\<close> set to \<open>None\<close>: the schema declares
  \<open>id TEXT PRIMARY KEY\<close> without \<open>NOT NULL\<close>, so the insert of that record does not
  fail; all six records are stored, one of them under a \<open>NULL\<close> key, and the call
  returns 6 rather than 5.
\<close>

theorem store_incidents_batch_null_id_stored:
  "fst (store_incidents_batch fixed_clock [] mixed_batch) = 6 \<and>
   map r_id (snd (store_incidents_batch fixed_clock [] mixed_batch)) =
     [Some ''INC1'', None, Some ''INC2'', Some ''INC3'', Some ''INC4'', Some ''INC5'']"
  by (simp add: store_incidents_batch_def mixed_batch_def with_id_def sample_incident_def
        upsert_row_def bindE_def bind_text_def not_null_def insert_or_replace_def)

section \<open>Persistence Store: the date-range query and the two date keys\<close>








lemmas store_defs = store_incidents_batch_def upsert_row_def bindE_def bind_text_def not_null_def
  insert_or_replace_def opt_iso_text_def fixed_clock_def

lemmas parse_defs = fromisoformat_def parse_isoformat_date_def int_of_digits_def is_digit_def
  digit_val_def digits_def parse_isoformat_time_def tz_pos_def parse_tz_def parse_hh_mm_ss_ff_def
  parse_fraction_def valid_datetime_def days_in_month_def is_leap_def day_us_def mk_datetime_def
  Let_def

lemmas query_defs = get_incidents_by_date_range_def select_by_date_range_def
  date_range_filter_def row_dict_def from_dict_def getitem_def get_default_def
  py_fromisoformat_def opt_fromisoformat_def opt_text_def







lemma iso_late: "isoformat (mk_datetime 2024 3 15 20 30 0 0 (Some utc_minus_7)) = ''2024-03-15T20:30:00-07:00''"
  by (simp add: isoformat_def print_defs mk_datetime_def utc_minus_7_def)

lemma parse_late: "fromisoformat ''2024-03-15T20:30:00-07:00'' = Inr (mk_datetime 2024 3 15 20 30 0 0 (Some utc_minus_7))"
  by (simp add: parse_defs utc_minus_7_def)

lemma sqlite_date_late: "sqlite_date ''2024-03-15T20:30:00-07:00'' = Some ''2024-03-16''"
  by (simp add: sqlite_date_def parse_late)
     (simp add: utc_instant_def calendar_defs print_defs)

lemma late_window:
  "date_isoformat (year late_now) (month late_now) (day late_now) = ''2024-03-15''"
  "date_minus_days late_now 0 = Inr ''2024-03-15''"
  by (simp_all add: late_now_def date_minus_days_def calendar_defs print_defs)

text \<open>
  C4. The two date keys differ for an incident created at 20:30 in UTC-7: the first ten
  characters of the stored text are the UTC-7 date 2024-03-15, while \<open>DATE(created_at)\<close>
  is the UTC date 2024-03-16. The range query for 2024-03-15 returns the incident; the
  escalated-incidents query and the total count for the same day, which filter on
  \<open>DATE(created_at)\<close>, do not see it.
\<close>

theorem date_keys_diverge:
  "map (\<lambda>r. take 10 (r_created_at r)) late_table = [''2024-03-15''] \<and>
   map (\<lambda>r. sqlite_date (r_created_at r)) late_table = [Some ''2024-03-16''] \<and>
   get_incidents_by_date_range late_table ''2024-03-15'' ''2024-03-15'' None =
     Inr [late_incident] \<and>
   get_escalated_incidents_last_x_days late_now late_table 0 = Inr [] \<and>
   get_total_incidents_last_x_days late_now late_table 0 = Inr 0"
proof (intro conjI)
  have t: "map r_created_at late_table = [''2024-03-15T20:30:00-07:00'']"
    by (simp add: late_table_def late_incident_def sample_incident_def store_defs iso_late)
  have l: "length late_table = 1"
    using t by (metis length_map length_Cons list.size(3) One_nat_def)
  then obtain r where r: "late_table = [r]"
    by (auto simp add: length_Suc_conv)
  have c: "r_created_at r = ''2024-03-15T20:30:00-07:00''" using t unfolding r by simp
  show "map (\<lambda>r. take 10 (r_created_at r)) late_table = [''2024-03-15'']"
    by (simp add: r c)
  show "map (\<lambda>r. sqlite_date (r_created_at r)) late_table = [Some ''2024-03-16'']"
    by (simp add: r c sqlite_date_late)
  show "get_incidents_by_date_range late_table ''2024-03-15'' ''2024-03-15'' None =
     Inr [late_incident]"
    by (simp add: late_table_def late_incident_def sample_incident_def
          store_defs query_defs iso_late parse_late)
  show "get_escalated_incidents_last_x_days late_now late_table 0 = Inr []"
    by (simp add: get_escalated_incidents_last_x_days_def late_window bindE_def r
          date_between_def c sqlite_date_late)
  show "get_total_incidents_last_x_days late_now late_table 0 = Inr 0"
    by (simp add: get_total_incidents_last_x_days_def late_window bindE_def r
          date_between_def c sqlite_date_late)
qed

section \<open>Remote Fetcher: enrichment and conversion\<close>

lemmas py_defs = py_get_def py_getitem_def py_first_def py_iter_def str_lower_def py_lower_def
  lower_char_def py_strip_def is_space_def

lemmas enrich_defs = get_incident_custom_fields_def parse_custom_fields_def scan_field_def
  custom_fields_dict_def custom_fields_response_def custom_field_entry_def

lemma sample_created:
  "parse_api_time local (PStr ''2025-08-23T10:00:00-07:00'') =
   Inr (mk_datetime 2025 8 23 10 0 0 0 (Some utc_minus_7))"
  by (simp add: parse_api_time_def replace_Z_def parse_defs bindE_def utc_minus_7_def)
     (simp add: calendar_defs)


lemma no_fields: "get_incident_custom_fields no_custom_fields =
   (1, PDict [(''resolution'', PNone), (''prelim_root_cause'', PNone)])"
  by (simp add: no_custom_fields_def enrich_defs py_defs bindE_def numeral_3_eq_3)

text \<open>
  C1. When the incident has no custom field named \<open>resolution\<close>, the enrichment returns
  \<open>None\<close> for it (its default), and the conversion then raises \<open>AttributeError\<close>:
  \<open>custom_fields.get('resolution').lower()\<close> calls \<open>lower\<close> on \<open>None\<close>. The same
  happens for the empty dictionary that the test suite passes.
\<close>

theorem convert_raises_without_resolution:
  "get_incident_custom_fields no_custom_fields =
     (1, PDict [(''resolution'', PNone), (''prelim_root_cause'', PNone)]) \<and>
   convert_to_incident_object local sample_raw False sample_names
     (snd (get_incident_custom_fields no_custom_fields)) = Inl AttributeError \<and>
   convert_to_incident_object local sample_raw False sample_names (PDict []) = Inl AttributeError"
  by (simp add: no_fields)
     (simp add: convert_to_incident_object_def sample_raw_def sample_names_def py_get_def
        py_getitem_def str_lower_def name_lookup_def opt_api_time_def acknowledged_time_def
        sample_created bindE_def)










section \<open>Remote Fetcher: validation of the service ids\<close>

text \<open>
  C8. With a loaded service directory and an explicit list of service ids: if some id is
  not in the directory, the fetch fails with the validation error that lists exactly the
  ids that are not in the directory (in the caller's order) and no API request is made; if
  all ids are in the directory, the fetch does not end in a validation error.
\<close>

theorem fetch_validates_service_ids:
  assumes "load_services_from_config e = Inr (all_ids, names)"
  shows "((\<exists>sid \<in> set sids. sid \<notin> set all_ids) \<longrightarrow>
            fetch_incidents_for_date_range fuel e start_date end_date days (Some sids) =
              Some (0, Inl (ValidationError [sid \<leftarrow> sids. sid \<notin> set all_ids] all_ids))) \<and>
         ((\<forall>sid \<in> set sids. sid \<in> set all_ids) \<longrightarrow>
            (\<forall>n a b. fetch_incidents_for_date_range fuel e start_date end_date days (Some sids) \<noteq>
               Some (n, Inl (ValidationError a b))))"
proof (intro conjI impI)
  assume "\<exists>sid \<in> set sids. sid \<notin> set all_ids"
  then have "[sid \<leftarrow> sids. sid \<notin> set all_ids] \<noteq> []"
    by (simp add: filter_empty_conv)
  then show "fetch_incidents_for_date_range fuel e start_date end_date days (Some sids) =
              Some (0, Inl (ValidationError [sid \<leftarrow> sids. sid \<notin> set all_ids] all_ids))"
    by (simp add: fetch_incidents_for_date_range_def assms)
next
  assume "\<forall>sid \<in> set sids. sid \<in> set all_ids"
  then have "[sid \<leftarrow> sids. sid \<notin> set all_ids] = []"
    by (simp add: filter_empty_conv)
  then show "\<forall>n a b. fetch_incidents_for_date_range fuel e start_date end_date days (Some sids) \<noteq>
               Some (n, Inl (ValidationError a b))"
    by (auto simp add: fetch_incidents_for_date_range_def assms
          split: sum.splits option.splits prod.splits)
qed

lemma quiet_window:
  "time_window quiet_env None None 2 = Inr (''2025-08-22T00:00:00-07:00'', ''2025-08-23T12:00:00-07:00'')"
  by (simp add: time_window_def given_def quiet_env_def bindE_def)
     (simp add: calendar_defs isoformat_def print_defs)

theorem fetch_validates_service_ids_witness:
  "load_services_from_config quiet_env = Inr ([''PHMCGNE'', ''PABCDEF''], sample_names) \<and>
   fetch_incidents_for_date_range 5 quiet_env None None 2 (Some [''PHMCGNE'', ''INVALID'']) =
     Some (0, Inl (ValidationError [''INVALID''] [''PHMCGNE'', ''PABCDEF''])) \<and>
   fetch_incidents_for_date_range 5 quiet_env None None 2 (Some [''PHMCGNE'']) = Some (1, Inr []) \<and>
   fetch_incidents_for_date_range 5 quiet_env None None 2 (Some [''PHMCGNE'']) \<noteq>
     Some (1, Inl (ValidationError [] [''PHMCGNE'', ''PABCDEF'']))"
proof -
  have c: "load_services_from_config quiet_env = Inr ([''PHMCGNE'', ''PABCDEF''], sample_names)"
    by (simp add: quiet_env_def)
  have ok: "fetch_incidents_for_date_range 5 quiet_env None None 2 (Some [''PHMCGNE'']) =
      Some (1, Inr [])"
    by (simp add: fetch_incidents_for_date_range_def c quiet_window)
       (simp add: quiet_env_def numeral_eq_Suc page_step_def py_get_def bindE_def)
  from fetch_validates_service_ids [OF c, of "[''PHMCGNE'', ''INVALID'']" 5 None None 2]
       fetch_validates_service_ids [OF c, of "[''PHMCGNE'']" 5 None None 2]
  show ?thesis using c ok by simp
qed

end
